theory Spec2Isabelle
  imports Main
begin

section \<open>AMP fallback routing (internal/api/modules/amp/fallback\_handlers\_cn.go)\<close>

text \<open>
  Go strings are byte strings and are modelled as \<^typ>\<open>string\<close> (a list of 8-bit
  characters).  The request body is kept abstract (type variable \<open>'b\<close>): the code only
  touches it through the JSON library (gjson/sjson), whose two entry points are
  collaborators of the model.
\<close>

subsection \<open>Standard library string functions\<close>

text \<open>\<open>strings.Index\<close>: position of the first occurrence, \<open>None\<close> for Go's \<open>-1\<close>.\<close>

fun Index :: "string \<Rightarrow> string \<Rightarrow> nat option" where
  "Index [] sub = (if sub = [] then Some 0 else None)"
| "Index (c # cs) sub =
     (if take (length sub) (c # cs) = sub then Some 0
      else map_option Suc (Index cs sub))"

text \<open>\<open>strings.LastIndex\<close> for a one-byte pattern.\<close>

fun LastIndexByte :: "string \<Rightarrow> char \<Rightarrow> nat option" where
  "LastIndexByte [] x = None"
| "LastIndexByte (c # cs) x =
     (case LastIndexByte cs x of
        Some i \<Rightarrow> Some (Suc i)
      | None \<Rightarrow> (if c = x then Some 0 else None))"

text \<open>\<open>strings.Split\<close> for a one-byte separator; the result is never empty.\<close>

fun Split :: "string \<Rightarrow> char \<Rightarrow> string list" where
  "Split [] sep = [[]]"
| "Split (c # cs) sep =
     (if c = sep then [] # Split cs sep
      else (case Split cs sep of
              p # ps \<Rightarrow> (c # p) # ps
            | [] \<Rightarrow> [[c]]))"

text \<open>
  \<open>strings.TrimSpace\<close> removes leading and trailing white space as defined by Unicode.
  On UTF-8 bytes these are the six ASCII characters tab, LF, VT, FF, CR, space, and the
  encodings of U+0085, U+00A0 (two bytes) and of U+1680, U+2000..U+200A, U+2028, U+2029,
  U+202F, U+205F, U+3000 (three bytes).
\<close>

definition asciiSpace :: "char \<Rightarrow> bool" where
  "asciiSpace c = (c \<in> set [CHR 0x09, CHR 0x0A, CHR 0x0B, CHR 0x0C, CHR 0x0D, CHR 0x20])"

definition space2 :: "char \<Rightarrow> char \<Rightarrow> bool" where
  "space2 a b = (a = CHR 0xC2 \<and> (b = CHR 0x85 \<or> b = CHR 0xA0))"

definition space3 :: "char \<Rightarrow> char \<Rightarrow> char \<Rightarrow> bool" where
  "space3 a b c =
     ((a = CHR 0xE1 \<and> b = CHR 0x9A \<and> c = CHR 0x80) \<or>
      (a = CHR 0xE2 \<and> b = CHR 0x80 \<and>
         (c \<in> set [CHR 0x80, CHR 0x81, CHR 0x82, CHR 0x83, CHR 0x84, CHR 0x85, CHR 0x86,
                    CHR 0x87, CHR 0x88, CHR 0x89, CHR 0x8A, CHR 0xA8, CHR 0xA9, CHR 0xAF])) \<or>
      (a = CHR 0xE2 \<and> b = CHR 0x81 \<and> c = CHR 0x9F) \<or>
      (a = CHR 0xE3 \<and> b = CHR 0x80 \<and> c = CHR 0x80))"

fun trimLeft :: "string \<Rightarrow> string" where
  "trimLeft (a # b # c # s) =
     (if asciiSpace a then trimLeft (b # c # s)
      else if space2 a b then trimLeft (c # s)
      else if space3 a b c then trimLeft s
      else a # b # c # s)"
| "trimLeft [a, b] =
     (if asciiSpace a then trimLeft [b]
      else if space2 a b then []
      else [a, b])"
| "trimLeft [a] = (if asciiSpace a then [] else [a])"
| "trimLeft [] = []"

text \<open>The same scan from the end, on the reversed string (last byte first).\<close>

fun trimRightRev :: "string \<Rightarrow> string" where
  "trimRightRev (c # b # a # s) =
     (if asciiSpace c then trimRightRev (b # a # s)
      else if space2 b c then trimRightRev (a # s)
      else if space3 a b c then trimRightRev s
      else c # b # a # s)"
| "trimRightRev [c, b] =
     (if asciiSpace c then trimRightRev [b]
      else if space2 b c then []
      else [c, b])"
| "trimRightRev [c] = (if asciiSpace c then [] else [c])"
| "trimRightRev [] = []"

definition TrimSpace :: "string \<Rightarrow> string" where
  "TrimSpace s = rev (trimRightRev (rev (trimLeft s)))"

subsection \<open>The thinking-suffix parser\<close>

record SuffixResult =
  ModelName :: string
  HasSuffix :: bool
  RawSuffix :: string

text \<open>
  Modelled from the spec: \<open>thinking.ParseSuffix\<close> (package internal/thinking) is not among
  the sources.  Spec 4.1: it ``parses a trailing \<open>(token)\<close> pattern anchored at the end of
  the string; if absent, returns the input unchanged with no suffix''; any string is valid
  input and the empty string normalizes to itself.  The pattern is taken to be: the string
  ends with \<open>)\<close> and contains a \<open>(\<close>; the base name is what precedes the last \<open>(\<close> and the
  raw suffix is what stands between that \<open>(\<close> and the final \<open>)\<close>.
\<close>

definition ParseSuffix :: "string \<Rightarrow> SuffixResult" where
  "ParseSuffix model =
     (case LastIndexByte model (CHR ''('') of
        None \<Rightarrow> \<lparr>ModelName = model, HasSuffix = False, RawSuffix = ''''\<rparr>
      | Some lastOpen \<Rightarrow>
          if model = [] \<or> last model \<noteq> CHR '')''
          then \<lparr>ModelName = model, HasSuffix = False, RawSuffix = ''''\<rparr>
          else \<lparr>ModelName = take lastOpen model,
                HasSuffix = True,
                RawSuffix = take (length model - 1 - (lastOpen + 1)) (drop (lastOpen + 1) model)\<rparr>)"

subsection \<open>Data model\<close>

datatype AmpRouteType =
    RouteTypeLocalProvider
  | RouteTypeModelMapping
  | RouteTypeAmpCredits
  | RouteTypeNoProvider

fun routeTypeString :: "AmpRouteType \<Rightarrow> string" where
  "routeTypeString RouteTypeLocalProvider = ''LOCAL_PROVIDER''"
| "routeTypeString RouteTypeModelMapping = ''MODEL_MAPPING''"
| "routeTypeString RouteTypeAmpCredits = ''AMP_CREDITS''"
| "routeTypeString RouteTypeNoProvider = ''NO_PROVIDER''"

definition MappedModelContextKey :: string where
  "MappedModelContextKey = ''mapped_model''"

text \<open>What \<open>gjson.GetBytes\<close> returns, as far as the code reads it: \<open>Exists()\<close>, \<open>Type\<close>
  and \<open>String()\<close>.\<close>

datatype gjson_Type = TNull | TFalse | TNumber | TString | TTrue | TJSON

record gjson_Result =
  rExists :: bool
  rType :: gjson_Type
  rString :: string

text \<open>The response writer installed in the context: the client's writer, or a response
  rewriter wrapped around a writer (\<open>NewResponseRewriter(c.Writer, modelName)\<close>).\<close>

datatype ResponseWriter =
    ClientWriter
  | ResponseRewriter ResponseWriter string

text \<open>
  The part of \<open>gin.Context\<close> the handler touches.  \<open>requestBody\<close> is what
  \<open>io.ReadAll(c.Request.Body)\<close> gives: an error or the bytes; installing
  \<open>io.NopCloser(bytes.NewReader(b))\<close> is \<open>requestBody := Inr b\<close>.  \<open>Param\<close> returns
  \<open>''''\<close> for a missing parameter, as \<open>c.Param\<close> does.
\<close>

record 'b Context =
  urlPath :: string
  requestBody :: "string + 'b"
  Param :: "string \<Rightarrow> string"
  header :: "string \<rightharpoonup> string"
  keys :: "string \<rightharpoonup> string"
  writer :: ResponseWriter

datatype ReverseProxy = ReverseProxy

text \<open>
  \<open>FallbackHandler\<close>: \<open>getProxy\<close> is the value the (non-nil) function returns when
  called, \<open>None\<close> for a nil proxy; \<open>modelMapper\<close> is \<open>None\<close> for a nil mapper and else
  its \<open>MapModel\<close> method; \<open>forceModelMappings\<close> is \<open>None\<close> for a nil function and else
  the value it returns for this request.
\<close>

record FallbackHandler =
  getProxy :: "ReverseProxy option"
  modelMapper :: "(string \<Rightarrow> string) option"
  forceModelMappings :: "bool option"

text \<open>
  The collaborators outside the handler struct: the provider registry
  (\<open>util.GetProviderName\<close>), the JSON library (\<open>gjson.GetBytes\<close>, \<open>sjson.SetBytes\<close>,
  whose error is \<open>Inl\<close>) and \<open>filterBetaFeatures\<close>, which is not among the sources.
\<close>

record 'b world =
  GetProviderName :: "string \<Rightarrow> string list"
  gjsonGetBytes :: "'b \<Rightarrow> string \<Rightarrow> gjson_Result"
  sjsonSetBytes :: "'b \<Rightarrow> string \<Rightarrow> string \<Rightarrow> string + 'b"
  filterBetaFeatures :: "string \<Rightarrow> string \<Rightarrow> string"

text \<open>How a call of the wrapped gin handler ends.  A Go panic unwinds through
  \<open>WrapHandler\<close>, which has neither \<open>defer\<close> nor \<open>recover\<close>.\<close>

datatype handler_result = Returned | Panicked

text \<open>
  The observable effects of one request, in order: calls of \<open>logAmpRouting\<close> (with its
  arguments), the call of the wrapped handler and of the reverse proxy (with the context
  they see), \<open>rewriter.Flush()\<close>, and a panic leaving the function.  Plain
  \<open>log.Debugf/Warnf/Errorf\<close> lines are not traced.
\<close>

datatype 'b event =
    LogAmpRouting AmpRouteType string string string string
  | HandlerCall "'b Context"
  | ProxyServeHTTP "'b Context"
  | RewriterFlush
  | GoPanic

subsection \<open>logAmpRouting\<close>

datatype log_level = Debug | Warn

record log_record =
  logFields :: "string \<rightharpoonup> string"
  logEmitted :: "(log_level \<times> string) option"

text \<open>\<open>now\<close> stands for \<open>time.Now().Format(time.RFC3339)\<close>.\<close>

definition logAmpRouting ::
  "string \<Rightarrow> AmpRouteType \<Rightarrow> string \<Rightarrow> string \<Rightarrow> string \<Rightarrow> string \<Rightarrow> log_record" where
  "logAmpRouting now routeType requestedModel resolvedModel provider path =
     (let fields0 = [''component'' \<mapsto> ''amp-routing'',
                     ''route_type'' \<mapsto> routeTypeString routeType,
                     ''requested_model'' \<mapsto> requestedModel,
                     ''path'' \<mapsto> path,
                     ''timestamp'' \<mapsto> now];
          fields1 = (if resolvedModel \<noteq> '''' \<and> resolvedModel \<noteq> requestedModel
                     then fields0(''resolved_model'' \<mapsto> resolvedModel) else fields0);
          fields2 = (if provider \<noteq> '''' then fields1(''provider'' \<mapsto> provider) else fields1)
      in case routeType of
           RouteTypeLocalProvider \<Rightarrow>
             \<lparr>logFields = fields2(''cost'' \<mapsto> ''free'', ''source'' \<mapsto> ''local_oauth''),
              logEmitted = Some (Debug, ''amp using local provider for model: '' @ requestedModel)\<rparr>
         | RouteTypeModelMapping \<Rightarrow>
             \<lparr>logFields = fields2(''cost'' \<mapsto> ''free'', ''source'' \<mapsto> ''local_oauth'',
                               ''mapping'' \<mapsto> requestedModel @ '' -> '' @ resolvedModel),
              logEmitted = None\<rparr>
         | RouteTypeAmpCredits \<Rightarrow>
             \<lparr>logFields = fields2(''cost'' \<mapsto> ''amp_credits'', ''source'' \<mapsto> ''ampcode.com'',
                               ''model_id'' \<mapsto> requestedModel),
              logEmitted = Some (Warn,
                ''forwarding to ampcode.com (uses amp credits) - model_id: '' @ requestedModel @
                '' | To use local provider, add to config: ampcode.model-mappings: [{from: ''
                @ [CHR 0x22] @ requestedModel @ [CHR 0x22] @ '', to: '' @ [CHR 0x22] @
                ''<your-local-model>'' @ [CHR 0x22] @ ''}]'')\<rparr>
         | RouteTypeNoProvider \<Rightarrow>
             \<lparr>logFields = fields2(''cost'' \<mapsto> ''none'', ''source'' \<mapsto> ''error'',
                               ''model_id'' \<mapsto> requestedModel),
              logEmitted = Some (Warn, ''no provider available for model_id: '' @ requestedModel)\<rparr>)"

subsection \<open>Request inspection and rewriting\<close>

definition extractModelFromRequest :: "'b world \<Rightarrow> 'b \<Rightarrow> 'b Context \<Rightarrow> string" where
  "extractModelFromRequest w body c =
     (let result = gjsonGetBytes w body ''model'' in
      if rExists result \<and> rType result = TString then rString result
      else
        let action = Param c ''action'';
            fromAction =
              (if action \<noteq> '''' then
                 (case Split action (CHR '':'') of
                    p # ps \<Rightarrow> (if p \<noteq> '''' then Some p else None)
                  | [] \<Rightarrow> None)
               else None)
        in case fromAction of
             Some m \<Rightarrow> m
           | None \<Rightarrow>
               let path = Param c ''path'' in
               if path \<noteq> '''' then
                 (case Index path ''/models/'' of
                    Some idx \<Rightarrow>
                      (let modelPart = drop (idx + 8) path in
                       case Index modelPart '':'' of
                         Some colonIdx \<Rightarrow> (if colonIdx > 0 then take colonIdx modelPart else '''')
                       | None \<Rightarrow> '''')
                  | None \<Rightarrow> '''')
               else '''')"

definition rewriteModelInRequest :: "'b world \<Rightarrow> 'b \<Rightarrow> string \<Rightarrow> 'b" where
  "rewriteModelInRequest w body newModel =
     (if \<not> rExists (gjsonGetBytes w body ''model'') then body
      else case sjsonSetBytes w body ''model'' newModel of
             Inl err \<Rightarrow> body
           | Inr result \<Rightarrow> result)"

definition headerGet :: "(string \<rightharpoonup> string) \<Rightarrow> string \<Rightarrow> string" where
  "headerGet h k = (case h k of None \<Rightarrow> '''' | Some v \<Rightarrow> v)"

definition filterAntropicBetaHeader :: "'b world \<Rightarrow> 'b Context \<Rightarrow> 'b Context" where
  "filterAntropicBetaHeader w c =
     (let betaHeader = headerGet (header c) ''Anthropic-Beta'' in
      if betaHeader \<noteq> '''' then
        (let filtered = filterBetaFeatures w betaHeader ''context-1m-2025-08-07'' in
         if filtered \<noteq> '''' then c\<lparr>header := (header c)(''Anthropic-Beta'' \<mapsto> filtered)\<rparr>
         else c\<lparr>header := (header c)(''Anthropic-Beta'' := None)\<rparr>)
      else c)"

subsection \<open>The mapping resolver (closure \<open>resolveMappedModel\<close> of \<open>WrapHandler\<close>)\<close>

text \<open>
  The closure reads \<open>modelName\<close>, \<open>normalizedModel\<close> and \<open>thinkingSuffix\<close> of the
  enclosing function; they are arguments here.  \<open>mappedCandidate\<close> is its first half (the
  lookup, the trimming and the re-attached suffix), \<open>None\<close> where the closure returns
  \<open>("", nil)\<close> before the provider lookup; \<open>resolveMappedModel\<close> adds the provider lookup.
\<close>

definition mappedCandidate :: "FallbackHandler \<Rightarrow> string \<Rightarrow> string \<Rightarrow> string \<Rightarrow> string option" where
  "mappedCandidate fh modelName normalizedModel thinkingSuffix =
     (case modelMapper fh of
        None \<Rightarrow> None
      | Some MapModel \<Rightarrow>
          let mappedModel0 = MapModel modelName;
              mappedModel1 = (if mappedModel0 = '''' then MapModel normalizedModel else mappedModel0);
              mappedModel = TrimSpace mappedModel1
          in if mappedModel = '''' then None
             else if thinkingSuffix \<noteq> '''' then
               (if \<not> HasSuffix (ParseSuffix mappedModel) then Some (mappedModel @ thinkingSuffix)
                else Some mappedModel)
             else Some mappedModel)"

definition resolveMappedModel ::
  "'b world \<Rightarrow> FallbackHandler \<Rightarrow> string \<Rightarrow> string \<Rightarrow> string \<Rightarrow> string \<times> string list" where
  "resolveMappedModel w fh modelName normalizedModel thinkingSuffix =
     (case mappedCandidate fh modelName normalizedModel thinkingSuffix of
        None \<Rightarrow> ('''', [])
      | Some mappedModel \<Rightarrow>
          let mappedBaseModel = ModelName (ParseSuffix mappedModel);
              mappedProviders = GetProviderName w mappedBaseModel
          in if length mappedProviders = 0 then ('''', [])
             else (mappedModel, mappedProviders))"

subsection \<open>The routing decision\<close>

text \<open>The local variables of \<open>WrapHandler\<close> that the decision updates.\<close>

record 'b locals =
  bodyBytes :: 'b
  ctx :: "'b Context"
  resolvedModel :: string
  usedMapping :: bool
  providers :: "string list"

text \<open>The block both modes run when the resolver returns a model (the source has it
  twice): rewrite the body, install it, store the mapped model in the context.\<close>

definition applyMapping ::
  "'b world \<Rightarrow> FallbackHandler \<Rightarrow> string \<Rightarrow> string \<Rightarrow> string \<Rightarrow> 'b locals \<Rightarrow> 'b locals" where
  "applyMapping w fh modelName normalizedModel thinkingSuffix st =
     (case resolveMappedModel w fh modelName normalizedModel thinkingSuffix of
        (mappedModel, mappedProviders) \<Rightarrow>
          if mappedModel \<noteq> '''' then
            (let body' = rewriteModelInRequest w (bodyBytes st) mappedModel in
             st\<lparr>bodyBytes := body',
                ctx := (ctx st)\<lparr>requestBody := Inr body',
                                keys := (keys (ctx st))(MappedModelContextKey \<mapsto> mappedModel)\<rparr>,
                resolvedModel := mappedModel,
                usedMapping := True,
                providers := mappedProviders\<rparr>)
          else st)"

definition decide ::
  "'b world \<Rightarrow> FallbackHandler \<Rightarrow> string \<Rightarrow> string \<Rightarrow> string \<Rightarrow> 'b \<Rightarrow> 'b Context \<Rightarrow> 'b locals" where
  "decide w fh modelName normalizedModel thinkingSuffix body c =
     (let st0 = \<lparr>bodyBytes = body, ctx = c, resolvedModel = normalizedModel,
                 usedMapping = False, providers = []\<rparr>;
          forceMappings = (case forceModelMappings fh of None \<Rightarrow> False | Some b \<Rightarrow> b)
      in if forceMappings then
           (let st1 = applyMapping w fh modelName normalizedModel thinkingSuffix st0 in
            if \<not> usedMapping st1 then st1\<lparr>providers := GetProviderName w normalizedModel\<rparr>
            else st1)
         else
           (let st1 = st0\<lparr>providers := GetProviderName w normalizedModel\<rparr> in
            if length (providers st1) = 0
            then applyMapping w fh modelName normalizedModel thinkingSuffix st1
            else st1))"

subsection \<open>WrapHandler\<close>

definition callHandler :: "('b Context \<Rightarrow> handler_result) \<Rightarrow> 'b Context \<Rightarrow> 'b event list" where
  "callHandler handler c =
     (case handler c of
        Returned \<Rightarrow> [HandlerCall c]
      | Panicked \<Rightarrow> [HandlerCall c, GoPanic])"

text \<open>Lines 262--311: the terminal fallback and the three ways of calling the handler.\<close>

definition dispatch ::
  "'b world \<Rightarrow> FallbackHandler \<Rightarrow> ('b Context \<Rightarrow> handler_result) \<Rightarrow> string \<Rightarrow> string \<Rightarrow>
   'b locals \<Rightarrow> 'b event list" where
  "dispatch w fh handler requestPath modelName st =
     (let c = ctx st;
          fallback =
            (if length (providers st) = 0 then
               (case getProxy fh of
                  Some proxy \<Rightarrow>
                    Inl [LogAmpRouting RouteTypeAmpCredits modelName '''' '''' requestPath,
                         ProxyServeHTTP (c\<lparr>requestBody := Inr (bodyBytes st)\<rparr>)]
                | None \<Rightarrow>
                    Inr [LogAmpRouting RouteTypeNoProvider modelName '''' '''' requestPath])
             else Inr [])
      in case fallback of
           Inl tr \<Rightarrow> tr
         | Inr tr \<Rightarrow>
             let providerName = (case providers st of [] \<Rightarrow> '''' | p # ps \<Rightarrow> p) in
             if usedMapping st then
               (let c1 = c\<lparr>writer := ResponseRewriter (writer c) modelName\<rparr>;
                    c2 = filterAntropicBetaHeader w c1;
                    c3 = c2\<lparr>requestBody := Inr (bodyBytes st)\<rparr>
                in tr @ [LogAmpRouting RouteTypeModelMapping modelName (resolvedModel st)
                           providerName requestPath]
                      @ (case handler c3 of
                           Returned \<Rightarrow> [HandlerCall c3, RewriterFlush]
                         | Panicked \<Rightarrow> [HandlerCall c3, GoPanic]))
             else if length (providers st) > 0 then
               (let c2 = filterAntropicBetaHeader w c;
                    c3 = c2\<lparr>requestBody := Inr (bodyBytes st)\<rparr>
                in tr @ [LogAmpRouting RouteTypeLocalProvider modelName (resolvedModel st)
                           providerName requestPath]
                      @ callHandler handler c3)
             else
               tr @ callHandler handler (c\<lparr>requestBody := Inr (bodyBytes st)\<rparr>))"

definition thinkingSuffixOf :: "SuffixResult \<Rightarrow> string" where
  "thinkingSuffixOf suffixResult =
     (if HasSuffix suffixResult then ''('' @ RawSuffix suffixResult @ '')'' else '''')"

definition WrapHandler ::
  "'b world \<Rightarrow> FallbackHandler \<Rightarrow> ('b Context \<Rightarrow> handler_result) \<Rightarrow> 'b Context \<Rightarrow> 'b event list" where
  "WrapHandler w fh handler c =
     (let requestPath = urlPath c in
      case requestBody c of
        Inl err \<Rightarrow> callHandler handler c
      | Inr body \<Rightarrow>
          let c0 = c\<lparr>requestBody := Inr body\<rparr>;
              modelName = extractModelFromRequest w body c0
          in if modelName = '''' then callHandler handler c0
             else
               let suffixResult = ParseSuffix modelName;
                   normalizedModel = ModelName suffixResult;
                   thinkingSuffix = thinkingSuffixOf suffixResult
               in dispatch w fh handler requestPath modelName
                    (decide w fh modelName normalizedModel thinkingSuffix body c0))"

subsection \<open>Reading a trace\<close>

fun routingCalls :: "'b event list \<Rightarrow> (AmpRouteType \<times> string \<times> string \<times> string \<times> string) list" where
  "routingCalls [] = []"
| "routingCalls (LogAmpRouting r requested resolved provider path # es) =
     (r, requested, resolved, provider, path) # routingCalls es"
| "routingCalls (e # es) = routingCalls es"

text \<open>The route outcomes of a trace: the route types \<open>logAmpRouting\<close> was called with.\<close>

definition routeTypes :: "'b event list \<Rightarrow> AmpRouteType list" where
  "routeTypes tr = map fst (routingCalls tr)"

fun handlerCalls :: "'b event list \<Rightarrow> 'b Context list" where
  "handlerCalls [] = []"
| "handlerCalls (HandlerCall c # es) = c # handlerCalls es"
| "handlerCalls (e # es) = handlerCalls es"

fun flushes :: "'b event list \<Rightarrow> nat" where
  "flushes [] = 0"
| "flushes (RewriterFlush # es) = Suc (flushes es)"
| "flushes (e # es) = flushes es"

text \<open>The resolver as \<open>WrapHandler\<close> runs it for a requested model name.\<close>

abbreviation candidateFor :: "FallbackHandler \<Rightarrow> string \<Rightarrow> string option" where
  "candidateFor fh modelName \<equiv>
     mappedCandidate fh modelName (ModelName (ParseSuffix modelName))
       (thinkingSuffixOf (ParseSuffix modelName))"

abbreviation resolveFor :: "'b world \<Rightarrow> FallbackHandler \<Rightarrow> string \<Rightarrow> string \<times> string list" where
  "resolveFor w fh modelName \<equiv>
     resolveMappedModel w fh modelName (ModelName (ParseSuffix modelName))
       (thinkingSuffixOf (ParseSuffix modelName))"

subsection \<open>A JSON library on flat objects, for evaluating examples\<close>

text \<open>
  A body is the member list of a JSON object, in order.  \<open>flatGet\<close> answers a one-key
  path as gjson does on such an object (the first member with that key); \<open>flatSet\<close> sets
  a string value as sjson does (replacing the value of that member, or appending a
  member).
\<close>

datatype jval = JNull | JFalse | JTrue | JNumber string | JString string | JRaw string

fun jvalType :: "jval \<Rightarrow> gjson_Type" where
  "jvalType JNull = TNull"
| "jvalType JFalse = TFalse"
| "jvalType JTrue = TTrue"
| "jvalType (JNumber n) = TNumber"
| "jvalType (JString s) = TString"
| "jvalType (JRaw r) = TJSON"

fun jvalString :: "jval \<Rightarrow> string" where
  "jvalString JNull = ''''"
| "jvalString JFalse = ''false''"
| "jvalString JTrue = ''true''"
| "jvalString (JNumber n) = n"
| "jvalString (JString s) = s"
| "jvalString (JRaw r) = r"

definition flatGet :: "(string \<times> jval) list \<Rightarrow> string \<Rightarrow> gjson_Result" where
  "flatGet doc k =
     (case map_of doc k of
        None \<Rightarrow> \<lparr>rExists = False, rType = TNull, rString = ''''\<rparr>
      | Some v \<Rightarrow> \<lparr>rExists = True, rType = jvalType v, rString = jvalString v\<rparr>)"

fun setMember :: "(string \<times> jval) list \<Rightarrow> string \<Rightarrow> jval \<Rightarrow> (string \<times> jval) list" where
  "setMember [] k v = [(k, v)]"
| "setMember ((k', v') # ms) k v =
     (if k' = k then (k, v) # ms else (k', v') # setMember ms k v)"

definition flatSet :: "(string \<times> jval) list \<Rightarrow> string \<Rightarrow> string \<Rightarrow> string + (string \<times> jval) list" where
  "flatSet doc k s = Inr (setMember doc k (JString s))"

subsection \<open>Example fixtures\<close>

text \<open>
  A world over flat JSON objects whose provider registry is an association list, a
  handler struct whose mapper is an association list (an unmapped name gives the empty
  string), and a request with a body and an \<open>action\<close> path parameter.  The example
  requests carry no \<open>Anthropic-Beta\<close> header, so \<open>filterBetaFeatures\<close> is never run
  on them.
\<close>

definition registryLookup :: "(string \<times> string list) list \<Rightarrow> string \<Rightarrow> string list" where
  "registryLookup table k = (case map_of table k of None \<Rightarrow> [] | Some v \<Rightarrow> v)"

definition mappingLookup :: "(string \<times> string) list \<Rightarrow> string \<Rightarrow> string" where
  "mappingLookup table k = (case map_of table k of None \<Rightarrow> '''' | Some v \<Rightarrow> v)"

definition flatWorld :: "(string \<times> string list) list \<Rightarrow> (string \<times> jval) list world" where
  "flatWorld registry =
     \<lparr>GetProviderName = registryLookup registry,
      gjsonGetBytes = flatGet,
      sjsonSetBytes = flatSet,
      filterBetaFeatures = (\<lambda>h t. h)\<rparr>"

definition tableHandler :: "(string \<times> string) list \<Rightarrow> bool \<Rightarrow> ReverseProxy option \<Rightarrow> FallbackHandler" where
  "tableHandler mappings force proxy =
     \<lparr>getProxy = proxy,
      modelMapper = Some (mappingLookup mappings),
      forceModelMappings = Some force\<rparr>"

definition request :: "(string \<times> jval) list \<Rightarrow> string \<Rightarrow> (string \<times> jval) list Context" where
  "request body action =
     \<lparr>urlPath = ''/api/provider/x'',
      requestBody = Inr body,
      Param = (\<lambda>k. if k = ''action'' then action else ''''),
      header = Map.empty,
      keys = Map.empty,
      writer = ClientWriter\<rparr>"

section \<open>Properties\<close>

subsection \<open>The resolver and the decision, case by case\<close>

lemma mappedCandidate_nonempty:
  "mappedCandidate fh modelName normalizedModel thinkingSuffix = Some m \<Longrightarrow> m \<noteq> ''''"
  by (auto simp: mappedCandidate_def Let_def split: option.splits if_splits)

lemma resolve_cases:
  "resolveMappedModel w fh modelName normalizedModel thinkingSuffix = (m, ps) \<Longrightarrow>
     (m = '''' \<and> ps = []) \<or>
     (m \<noteq> '''' \<and> ps \<noteq> [] \<and>
      mappedCandidate fh modelName normalizedModel thinkingSuffix = Some m \<and>
      ps = GetProviderName w (ModelName (ParseSuffix m)))"
  by (auto simp: resolveMappedModel_def Let_def mappedCandidate_nonempty split: option.splits if_splits)

lemma resolve_usable:
  assumes "mappedCandidate fh modelName normalizedModel thinkingSuffix = Some m"
      and "GetProviderName w (ModelName (ParseSuffix m)) \<noteq> []"
  shows "resolveMappedModel w fh modelName normalizedModel thinkingSuffix =
           (m, GetProviderName w (ModelName (ParseSuffix m)))"
  using assms by (simp add: resolveMappedModel_def Let_def)

lemma resolve_unusable:
  assumes "mappedCandidate fh modelName normalizedModel thinkingSuffix = Some m"
      and "GetProviderName w (ModelName (ParseSuffix m)) = []"
  shows "resolveMappedModel w fh modelName normalizedModel thinkingSuffix = ('''', [])"
  using assms by (simp add: resolveMappedModel_def Let_def)

text \<open>The three ways the resolver returns nothing.\<close>

lemma resolve_nothing_iff:
  "resolveMappedModel w fh modelName normalizedModel thinkingSuffix = ('''', []) \<longleftrightarrow>
     (case modelMapper fh of
        None \<Rightarrow> True
      | Some MapModel \<Rightarrow>
          TrimSpace (if MapModel modelName = '''' then MapModel normalizedModel
                     else MapModel modelName) = '''' \<or>
          (\<exists>m. mappedCandidate fh modelName normalizedModel thinkingSuffix = Some m \<and>
               GetProviderName w (ModelName (ParseSuffix m)) = []))"
proof (cases "mappedCandidate fh modelName normalizedModel thinkingSuffix")
  case None
  then show ?thesis
    by (auto simp: resolveMappedModel_def mappedCandidate_def Let_def split: option.splits if_splits)
next
  case (Some m)
  then have "m \<noteq> ''''" by (rule mappedCandidate_nonempty)
  with Some show ?thesis
    by (auto simp: resolveMappedModel_def mappedCandidate_def Let_def split: option.splits if_splits)
qed

lemma applyMapping_nothing:
  "fst (resolveMappedModel w fh modelName normalizedModel thinkingSuffix) = '''' \<Longrightarrow>
   applyMapping w fh modelName normalizedModel thinkingSuffix st = st"
  by (cases "resolveMappedModel w fh modelName normalizedModel thinkingSuffix") (simp add: applyMapping_def)

lemma applyMapping_mapped:
  assumes "resolveMappedModel w fh modelName normalizedModel thinkingSuffix = (m, ps)" and "m \<noteq> ''''"
  shows "applyMapping w fh modelName normalizedModel thinkingSuffix st =
           st\<lparr>bodyBytes := rewriteModelInRequest w (bodyBytes st) m,
              ctx := (ctx st)\<lparr>requestBody := Inr (rewriteModelInRequest w (bodyBytes st) m),
                              keys := (keys (ctx st))(MappedModelContextKey \<mapsto> m)\<rparr>,
              resolvedModel := m, usedMapping := True, providers := ps\<rparr>"
  using assms by (simp add: applyMapping_def Let_def)

lemma decide_unmapped:
  assumes "fst (resolveMappedModel w fh modelName normalizedModel thinkingSuffix) = ''''"
  shows "decide w fh modelName normalizedModel thinkingSuffix body c =
           \<lparr>bodyBytes = body, ctx = c, resolvedModel = normalizedModel, usedMapping = False,
            providers = GetProviderName w normalizedModel\<rparr>"
  using assms by (simp add: decide_def Let_def applyMapping_nothing split: option.splits)

lemma decide_mapped_forced:
  assumes "resolveMappedModel w fh modelName normalizedModel thinkingSuffix = (m, ps)" and "m \<noteq> ''''"
      and "forceModelMappings fh = Some True"
  shows "decide w fh modelName normalizedModel thinkingSuffix body c =
           \<lparr>bodyBytes = rewriteModelInRequest w body m,
            ctx = c\<lparr>requestBody := Inr (rewriteModelInRequest w body m),
                    keys := (keys c)(MappedModelContextKey \<mapsto> m)\<rparr>,
            resolvedModel = m, usedMapping = True, providers = ps\<rparr>"
  using assms by (simp add: decide_def Let_def applyMapping_mapped)

lemma decide_local_default:
  assumes "forceModelMappings fh \<noteq> Some True" and "GetProviderName w normalizedModel \<noteq> []"
  shows "decide w fh modelName normalizedModel thinkingSuffix body c =
           \<lparr>bodyBytes = body, ctx = c, resolvedModel = normalizedModel, usedMapping = False,
            providers = GetProviderName w normalizedModel\<rparr>"
  using assms by (auto simp add: decide_def Let_def split: option.splits)

lemma decide_mapped_default:
  assumes "resolveMappedModel w fh modelName normalizedModel thinkingSuffix = (m, ps)" and "m \<noteq> ''''"
      and "forceModelMappings fh \<noteq> Some True" and "GetProviderName w normalizedModel = []"
  shows "decide w fh modelName normalizedModel thinkingSuffix body c =
           \<lparr>bodyBytes = rewriteModelInRequest w body m,
            ctx = c\<lparr>requestBody := Inr (rewriteModelInRequest w body m),
                    keys := (keys c)(MappedModelContextKey \<mapsto> m)\<rparr>,
            resolvedModel = m, usedMapping = True, providers = ps\<rparr>"
  using assms by (auto simp add: decide_def Let_def applyMapping_mapped split: option.splits)

lemma decide_usedMapping:
  assumes "usedMapping (decide w fh modelName normalizedModel thinkingSuffix body c)"
  shows "\<exists>m ps. resolveMappedModel w fh modelName normalizedModel thinkingSuffix = (m, ps) \<and>
           m \<noteq> '''' \<and> ps \<noteq> [] \<and>
           (forceModelMappings fh \<noteq> Some True \<longrightarrow> GetProviderName w normalizedModel = []) \<and>
           decide w fh modelName normalizedModel thinkingSuffix body c =
             \<lparr>bodyBytes = rewriteModelInRequest w body m,
              ctx = c\<lparr>requestBody := Inr (rewriteModelInRequest w body m),
                      keys := (keys c)(MappedModelContextKey \<mapsto> m)\<rparr>,
              resolvedModel = m, usedMapping = True, providers = ps\<rparr>"
proof -
  obtain m ps where r: "resolveMappedModel w fh modelName normalizedModel thinkingSuffix = (m, ps)"
    by (cases "resolveMappedModel w fh modelName normalizedModel thinkingSuffix")
  have m: "m \<noteq> ''''"
  proof
    assume "m = ''''"
    with r have "fst (resolveMappedModel w fh modelName normalizedModel thinkingSuffix) = ''''" by simp
    from decide_unmapped [OF this] assms show False by simp
  qed
  from resolve_cases [OF r] m have ps: "ps \<noteq> []" by blast
  show ?thesis
  proof (cases "forceModelMappings fh = Some True")
    case True
    from decide_mapped_forced [OF r m True] r m ps True show ?thesis by simp
  next
    case False
    have np: "GetProviderName w normalizedModel = []"
    proof (rule ccontr)
      assume "GetProviderName w normalizedModel \<noteq> []"
      from decide_local_default [OF False this] assms show False by simp
    qed
    from decide_mapped_default [OF r m False np] r m ps np show ?thesis by simp
  qed
qed

lemma decide_not_usedMapping:
  assumes "\<not> usedMapping (decide w fh modelName normalizedModel thinkingSuffix body c)"
  shows "decide w fh modelName normalizedModel thinkingSuffix body c =
           \<lparr>bodyBytes = body, ctx = c, resolvedModel = normalizedModel, usedMapping = False,
            providers = GetProviderName w normalizedModel\<rparr>"
proof -
  obtain m ps where r: "resolveMappedModel w fh modelName normalizedModel thinkingSuffix = (m, ps)"
    by (cases "resolveMappedModel w fh modelName normalizedModel thinkingSuffix")
  show ?thesis
  proof (cases "m = ''''")
    case True
    with r have "fst (resolveMappedModel w fh modelName normalizedModel thinkingSuffix) = ''''" by simp
    from decide_unmapped [OF this] show ?thesis .
  next
    case m: False
    show ?thesis
    proof (cases "forceModelMappings fh = Some True")
      case True
      from decide_mapped_forced [OF r m True] assms show ?thesis by simp
    next
      case False
      show ?thesis
      proof (cases "GetProviderName w normalizedModel = []")
        case True
        from decide_mapped_default [OF r m False True] assms show ?thesis by simp
      next
        case False
        from decide_local_default [OF \<open>forceModelMappings fh \<noteq> Some True\<close> False] show ?thesis .
      qed
    qed
  qed
qed

lemma routingCalls_append [simp]: "routingCalls (xs @ ys) = routingCalls xs @ routingCalls ys"
  by (induction xs rule: routingCalls.induct) simp_all

lemma handlerCalls_append [simp]: "handlerCalls (xs @ ys) = handlerCalls xs @ handlerCalls ys"
  by (induction xs rule: handlerCalls.induct) simp_all

lemma flushes_append [simp]: "flushes (xs @ ys) = flushes xs + flushes ys"
  by (induction xs rule: flushes.induct) simp_all

lemma callHandler_reads [simp]:
  "routingCalls (callHandler handler c) = []"
  "handlerCalls (callHandler handler c) = [c]"
  "flushes (callHandler handler c) = 0"
  by (simp_all add: callHandler_def split: handler_result.splits)

lemma WrapHandler_routed:
  assumes "requestBody c = Inr body" and "extractModelFromRequest w body c = modelName"
      and "modelName \<noteq> ''''"
  shows "WrapHandler w fh handler c =
           dispatch w fh handler (urlPath c) modelName
             (decide w fh modelName (ModelName (ParseSuffix modelName))
                (thinkingSuffixOf (ParseSuffix modelName)) body c)"
proof -
  have eq: "c\<lparr>requestBody := Inr body\<rparr> = c" using assms(1) by (cases c) simp
  from assms show ?thesis by (simp add: WrapHandler_def Let_def eq)
qed

lemma WrapHandler_unrouted:
  assumes "requestBody c = Inl err \<or> (\<exists>body. requestBody c = Inr body \<and> extractModelFromRequest w body c = '''')"
  shows "WrapHandler w fh handler c = callHandler handler c"
proof -
  have eq: "\<And>body. requestBody c = Inr body \<Longrightarrow> c\<lparr>requestBody := Inr body\<rparr> = c" by (cases c) simp
  from assms show ?thesis by (auto simp add: WrapHandler_def Let_def eq)
qed

lemma dispatch_mapped:
  assumes "usedMapping st" and "providers st \<noteq> []"
  shows "dispatch w fh handler requestPath modelName st =
           LogAmpRouting RouteTypeModelMapping modelName (resolvedModel st) (hd (providers st)) requestPath #
           (let c3 = (filterAntropicBetaHeader w ((ctx st)\<lparr>writer := ResponseRewriter (writer (ctx st)) modelName\<rparr>))
                       \<lparr>requestBody := Inr (bodyBytes st)\<rparr>
            in case handler c3 of
                 Returned \<Rightarrow> [HandlerCall c3, RewriterFlush]
               | Panicked \<Rightarrow> [HandlerCall c3, GoPanic])"
  using assms by (cases "providers st") (simp_all add: dispatch_def Let_def)

lemma dispatch_local:
  assumes "\<not> usedMapping st" and "providers st \<noteq> []"
  shows "dispatch w fh handler requestPath modelName st =
           LogAmpRouting RouteTypeLocalProvider modelName (resolvedModel st) (hd (providers st)) requestPath #
           callHandler handler ((filterAntropicBetaHeader w (ctx st))\<lparr>requestBody := Inr (bodyBytes st)\<rparr>)"
  using assms by (cases "providers st") (simp_all add: dispatch_def Let_def)

lemma dispatch_no_provider:
  assumes "\<not> usedMapping st" and "providers st = []" and "getProxy fh = None"
  shows "dispatch w fh handler requestPath modelName st =
           LogAmpRouting RouteTypeNoProvider modelName '''' '''' requestPath #
           callHandler handler ((ctx st)\<lparr>requestBody := Inr (bodyBytes st)\<rparr>)"
  using assms by (simp add: dispatch_def Let_def)

lemma dispatch_amp_credits:
  assumes "providers st = []" and "getProxy fh = Some proxy"
  shows "dispatch w fh handler requestPath modelName st =
           [LogAmpRouting RouteTypeAmpCredits modelName '''' '''' requestPath,
            ProxyServeHTTP ((ctx st)\<lparr>requestBody := Inr (bodyBytes st)\<rparr>)]"
  using assms by (simp add: dispatch_def Let_def)

lemma routeTypes_Cons [simp]:
  "routeTypes (LogAmpRouting r requested resolved provider path # es) = r # routeTypes es"
  by (simp add: routeTypes_def)

lemma routeTypes_other [simp]:
  "routeTypes [] = []"
  "routeTypes (HandlerCall c # es) = routeTypes es"
  "routeTypes (ProxyServeHTTP c # es) = routeTypes es"
  "routeTypes (RewriterFlush # es) = routeTypes es"
  "routeTypes (GoPanic # es) = routeTypes es"
  by (simp_all add: routeTypes_def)

lemma routeTypes_callHandler [simp]: "routeTypes (callHandler handler c) = []"
  by (simp add: routeTypes_def)

lemma routeTypes_mapped_tail [simp]:
  "routeTypes (case r of Returned \<Rightarrow> [HandlerCall c, RewriterFlush] | Panicked \<Rightarrow> [HandlerCall c, GoPanic]) = []"
  by (simp add: routeTypes_def split: handler_result.splits)

lemma mappedCandidate_force_irrelevant [simp]:
  "mappedCandidate (fh\<lparr>forceModelMappings := b\<rparr>) = mappedCandidate fh"
  by (simp add: mappedCandidate_def fun_eq_iff)

lemma resolveMappedModel_force_irrelevant [simp]:
  "resolveMappedModel w (fh\<lparr>forceModelMappings := b\<rparr>) = resolveMappedModel w fh"
  by (simp add: resolveMappedModel_def fun_eq_iff)

text \<open>Definitions unfolded when an example is evaluated.\<close>

lemmas fixture_defs =
  flatWorld_def tableHandler_def request_def registryLookup_def mappingLookup_def
  flatGet_def flatSet_def extractModelFromRequest_def ParseSuffix_def thinkingSuffixOf_def
  mappedCandidate_def resolveMappedModel_def TrimSpace_def asciiSpace_def space2_def space3_def

lemma handlerCalls_other [simp]:
  "handlerCalls (LogAmpRouting r requested resolved provider path # es) = handlerCalls es"
  "handlerCalls (ProxyServeHTTP c # es) = handlerCalls es"
  "handlerCalls (RewriterFlush # es) = handlerCalls es"
  "handlerCalls (GoPanic # es) = handlerCalls es"
  by simp_all

lemma filterAntropicBetaHeader_keeps [simp]:
  "keys (filterAntropicBetaHeader w c) = keys c"
  "writer (filterAntropicBetaHeader w c) = writer c"
  "requestBody (filterAntropicBetaHeader w c) = requestBody c"
  "urlPath (filterAntropicBetaHeader w c) = urlPath c"
  by (simp_all add: filterAntropicBetaHeader_def Let_def)

lemma routed_of_mapping_route:
  assumes "RouteTypeModelMapping \<in> set (routeTypes (WrapHandler w fh handler c))"
  shows "\<exists>body. requestBody c = Inr body \<and> extractModelFromRequest w body c \<noteq> ''''"
proof (cases "requestBody c")
  case (Inl err)
  then have "WrapHandler w fh handler c = callHandler handler c"
    by (intro WrapHandler_unrouted) simp
  with assms show ?thesis by simp
next
  case (Inr body)
  show ?thesis
  proof (cases "extractModelFromRequest w body c = ''''")
    case True
    with Inr have "WrapHandler w fh handler c = callHandler handler c"
      by (intro WrapHandler_unrouted) simp
    with assms show ?thesis by simp
  next
    case False
    with Inr show ?thesis by simp
  qed
qed

text \<open>The whole trace of a routed request, by the decision taken.\<close>

lemma WrapHandler_trace:
  fixes w :: "'b world" and fh :: FallbackHandler and c :: "'b Context" and body :: 'b
    and modelName :: string
  assumes "requestBody c = Inr body"
      and "extractModelFromRequest w body c = modelName" and "modelName \<noteq> ''''"
  defines "st \<equiv> decide w fh modelName (ModelName (ParseSuffix modelName))
                   (thinkingSuffixOf (ParseSuffix modelName)) body c"
  shows "usedMapping st \<Longrightarrow>
           WrapHandler w fh handler c =
             LogAmpRouting RouteTypeModelMapping modelName (fst (resolveFor w fh modelName))
               (hd (snd (resolveFor w fh modelName))) (urlPath c) #
             (let c3 = (filterAntropicBetaHeader w
                          (c\<lparr>requestBody := Inr (rewriteModelInRequest w body (fst (resolveFor w fh modelName))),
                             keys := (keys c)(MappedModelContextKey \<mapsto> fst (resolveFor w fh modelName)),
                             writer := ResponseRewriter (writer c) modelName\<rparr>))
                        \<lparr>requestBody := Inr (rewriteModelInRequest w body (fst (resolveFor w fh modelName)))\<rparr>
              in case handler c3 of
                   Returned \<Rightarrow> [HandlerCall c3, RewriterFlush]
                 | Panicked \<Rightarrow> [HandlerCall c3, GoPanic])"
    and "\<not> usedMapping st \<Longrightarrow> GetProviderName w (ModelName (ParseSuffix modelName)) \<noteq> [] \<Longrightarrow>
           WrapHandler w fh handler c =
             LogAmpRouting RouteTypeLocalProvider modelName (ModelName (ParseSuffix modelName))
               (hd (GetProviderName w (ModelName (ParseSuffix modelName)))) (urlPath c) #
             callHandler handler (filterAntropicBetaHeader w c)"
    and "\<not> usedMapping st \<Longrightarrow> GetProviderName w (ModelName (ParseSuffix modelName)) = [] \<Longrightarrow>
         getProxy fh = None \<Longrightarrow>
           WrapHandler w fh handler c =
             LogAmpRouting RouteTypeNoProvider modelName '''' '''' (urlPath c) # callHandler handler c"
    and "\<not> usedMapping st \<Longrightarrow> GetProviderName w (ModelName (ParseSuffix modelName)) = [] \<Longrightarrow>
         getProxy fh = Some proxy \<Longrightarrow>
           WrapHandler w fh handler c =
             [LogAmpRouting RouteTypeAmpCredits modelName '''' '''' (urlPath c), ProxyServeHTTP c]"
proof -
  have wr: "WrapHandler w fh handler c = dispatch w fh handler (urlPath c) modelName st"
    unfolding st_def using assms(1-3) by (rule WrapHandler_routed)
  have same: "c\<lparr>requestBody := Inr body\<rparr> = c" using assms(1) by (cases c) simp
  have same': "(filterAntropicBetaHeader w c)\<lparr>requestBody := Inr body\<rparr> = filterAntropicBetaHeader w c"
    using assms(1) by (cases c) (simp add: filterAntropicBetaHeader_def Let_def)
  {
    assume u: "usedMapping st"
    from decide_usedMapping [OF u [unfolded st_def]]
    obtain m ps where r: "resolveFor w fh modelName = (m, ps)" and "m \<noteq> ''''" and ps: "ps \<noteq> []"
      and st: "st = \<lparr>bodyBytes = rewriteModelInRequest w body m,
                      ctx = c\<lparr>requestBody := Inr (rewriteModelInRequest w body m),
                              keys := (keys c)(MappedModelContextKey \<mapsto> m)\<rparr>,
                      resolvedModel = m, usedMapping = True, providers = ps\<rparr>"
      unfolding st_def by blast
    show "WrapHandler w fh handler c =
             LogAmpRouting RouteTypeModelMapping modelName (fst (resolveFor w fh modelName))
               (hd (snd (resolveFor w fh modelName))) (urlPath c) #
             (let c3 = (filterAntropicBetaHeader w
                          (c\<lparr>requestBody := Inr (rewriteModelInRequest w body (fst (resolveFor w fh modelName))),
                             keys := (keys c)(MappedModelContextKey \<mapsto> fst (resolveFor w fh modelName)),
                             writer := ResponseRewriter (writer c) modelName\<rparr>))
                        \<lparr>requestBody := Inr (rewriteModelInRequest w body (fst (resolveFor w fh modelName)))\<rparr>
              in case handler c3 of
                   Returned \<Rightarrow> [HandlerCall c3, RewriterFlush]
                 | Panicked \<Rightarrow> [HandlerCall c3, GoPanic])"
      using ps by (simp add: wr r st dispatch_mapped)
  }
  {
    assume u: "\<not> usedMapping st"
    from decide_not_usedMapping [OF u [unfolded st_def]]
    have st: "st = \<lparr>bodyBytes = body, ctx = c, resolvedModel = ModelName (ParseSuffix modelName),
                     usedMapping = False,
                     providers = GetProviderName w (ModelName (ParseSuffix modelName))\<rparr>"
      unfolding st_def .
    {
      assume "GetProviderName w (ModelName (ParseSuffix modelName)) \<noteq> []"
      then show "WrapHandler w fh handler c =
             LogAmpRouting RouteTypeLocalProvider modelName (ModelName (ParseSuffix modelName))
               (hd (GetProviderName w (ModelName (ParseSuffix modelName)))) (urlPath c) #
             callHandler handler (filterAntropicBetaHeader w c)"
        by (simp add: wr st dispatch_local same')
    }
    {
      assume "GetProviderName w (ModelName (ParseSuffix modelName)) = []" and "getProxy fh = None"
      then show "WrapHandler w fh handler c =
             LogAmpRouting RouteTypeNoProvider modelName '''' '''' (urlPath c) # callHandler handler c"
        by (simp add: wr st dispatch_no_provider same)
    }
    {
      assume "GetProviderName w (ModelName (ParseSuffix modelName)) = []" and "getProxy fh = Some proxy"
      then show "WrapHandler w fh handler c =
             [LogAmpRouting RouteTypeAmpCredits modelName '''' '''' (urlPath c), ProxyServeHTTP c]"
        by (simp add: wr st dispatch_amp_credits [where proxy = proxy] same)
    }
  }
qed

lemma mapping_route_usedMapping:
  assumes "requestBody c = Inr body"
      and "extractModelFromRequest w body c = modelName" and "modelName \<noteq> ''''"
      and "RouteTypeModelMapping \<in> set (routeTypes (WrapHandler w fh handler c))"
  shows "usedMapping (decide w fh modelName (ModelName (ParseSuffix modelName))
                        (thinkingSuffixOf (ParseSuffix modelName)) body c)"
proof (rule ccontr)
  assume u: "\<not> ?thesis"
  show False
  proof (cases "GetProviderName w (ModelName (ParseSuffix modelName)) = []")
    case False
    from WrapHandler_trace(2) [OF assms(1-3) u False] assms(4) show False by simp
  next
    case True
    show False
    proof (cases "getProxy fh")
      case None
      from WrapHandler_trace(3) [OF assms(1-3) u True None] assms(4) show False by simp
    next
      case (Some proxy)
      from WrapHandler_trace(4) [OF assms(1-3) u True Some] assms(4) show False by simp
    qed
  qed
qed

subsection \<open>The suffix parser on names of the form \<open>base(s)\<close>\<close>

lemma LastIndexByte_absent: "x \<notin> set s \<Longrightarrow> LastIndexByte s x = None"
  by (induction s) auto

lemma LastIndexByte_last_occurrence:
  "x \<notin> set s \<Longrightarrow> LastIndexByte (base @ x # s) x = Some (length base)"
  by (induction base) (simp_all add: LastIndexByte_absent)

lemma ParseSuffix_suffixed:
  assumes "CHR ''('' \<notin> set s"
  shows "ParseSuffix (base @ ''('' @ s @ '')'') = \<lparr>ModelName = base, HasSuffix = True, RawSuffix = s\<rparr>"
proof -
  have "CHR ''('' \<notin> set (s @ '')'')" using assms by simp
  then have "LastIndexByte (base @ CHR ''('' # (s @ '')'')) (CHR ''('') = Some (length base)"
    by (rule LastIndexByte_last_occurrence)
  then show ?thesis by (simp add: ParseSuffix_def)
qed

lemma LastIndexByte_bound: "LastIndexByte m x = Some i \<Longrightarrow> i < length m"
  by (induction m arbitrary: i) (auto split: option.splits if_splits)

lemma ParseSuffix_ModelName_same:
  "ModelName (ParseSuffix m) = m \<longleftrightarrow> \<not> HasSuffix (ParseSuffix m)"
proof (cases "LastIndexByte m (CHR ''('')")
  case None
  then show ?thesis by (simp add: ParseSuffix_def)
next
  case (Some i)
  then have "i < length m" by (rule LastIndexByte_bound)
  then have "take i m \<noteq> m" by (metis length_take min.absorb4 nat_neq_iff)
  with Some show ?thesis by (simp add: ParseSuffix_def)
qed

text \<open>Definitions unfolded when a whole request is evaluated.\<close>

lemmas run_defs =
  WrapHandler_def decide_def applyMapping_def dispatch_def callHandler_def
  rewriteModelInRequest_def filterAntropicBetaHeader_def headerGet_def routeTypes_def
  MappedModelContextKey_def Let_def

section \<open>The claims\<close>

text \<open>
  C1.  A request whose model has a local provider (for its normalized base name) and a
  usable mapping (the resolver's candidate exists and the base name of the candidate has
  at least one provider) is routed as \<open>MODEL_MAPPING\<close> when the force-priority flag
  reads true, and as \<open>LOCAL_PROVIDER\<close> when it reads false.
\<close>

theorem force_priority_flips_precedence:
  assumes "requestBody c = Inr body"
      and "extractModelFromRequest w body c = modelName" and "modelName \<noteq> ''''"
      and "GetProviderName w (ModelName (ParseSuffix modelName)) \<noteq> []"
      and "candidateFor fh modelName = Some target"
      and "GetProviderName w (ModelName (ParseSuffix target)) \<noteq> []"
  shows "routeTypes (WrapHandler w (fh\<lparr>forceModelMappings := Some True\<rparr>) handler c)
           = [RouteTypeModelMapping]
       \<and> routeTypes (WrapHandler w (fh\<lparr>forceModelMappings := Some False\<rparr>) handler c)
           = [RouteTypeLocalProvider]"
proof -
  let ?n = "ModelName (ParseSuffix modelName)"
  let ?t = "thinkingSuffixOf (ParseSuffix modelName)"
  let ?ps = "GetProviderName w (ModelName (ParseSuffix target))"
  have r: "resolveMappedModel w fh modelName ?n ?t = (target, ?ps)"
    using assms(5,6) by (rule resolve_usable)
  have t: "target \<noteq> ''''" using assms(5) by (rule mappedCandidate_nonempty)
  have "decide w (fh\<lparr>forceModelMappings := Some True\<rparr>) modelName ?n ?t body c =
          \<lparr>bodyBytes = rewriteModelInRequest w body target,
           ctx = c\<lparr>requestBody := Inr (rewriteModelInRequest w body target),
                   keys := (keys c)(MappedModelContextKey \<mapsto> target)\<rparr>,
           resolvedModel = target, usedMapping = True, providers = ?ps\<rparr>"
    using r t by (intro decide_mapped_forced) simp_all
  then have forced: "routeTypes (WrapHandler w (fh\<lparr>forceModelMappings := Some True\<rparr>) handler c)
                       = [RouteTypeModelMapping]"
    using assms(6) by (simp add: WrapHandler_routed [OF assms(1-3)] dispatch_mapped Let_def)
  have "decide w (fh\<lparr>forceModelMappings := Some False\<rparr>) modelName ?n ?t body c =
          \<lparr>bodyBytes = body, ctx = c, resolvedModel = ?n, usedMapping = False,
           providers = GetProviderName w ?n\<rparr>"
    using assms(4) by (intro decide_local_default) simp_all
  then have default: "routeTypes (WrapHandler w (fh\<lparr>forceModelMappings := Some False\<rparr>) handler c)
                        = [RouteTypeLocalProvider]"
    using assms(4) by (simp add: WrapHandler_routed [OF assms(1-3)] dispatch_local)
  from forced default show ?thesis by simp
qed

theorem force_priority_flips_precedence_witness:
  "routeTypes (WrapHandler (flatWorld [(''gpt-5'', [''openai'']), (''local-model-a'', [''local''])])
                 ((tableHandler [(''gpt-5'', ''local-model-a'')] False None)\<lparr>forceModelMappings := Some True\<rparr>)
                 (\<lambda>c. Returned) (request [(''model'', JString ''gpt-5(xhigh)'')] ''''))
     = [RouteTypeModelMapping]
   \<and> routeTypes (WrapHandler (flatWorld [(''gpt-5'', [''openai'']), (''local-model-a'', [''local''])])
                 ((tableHandler [(''gpt-5'', ''local-model-a'')] False None)\<lparr>forceModelMappings := Some False\<rparr>)
                 (\<lambda>c. Returned) (request [(''model'', JString ''gpt-5(xhigh)'')] ''''))
     = [RouteTypeLocalProvider]"
  using force_priority_flips_precedence
          [of "request [(''model'', JString ''gpt-5(xhigh)'')] ''''"
              "[(''model'', JString ''gpt-5(xhigh)'')]"
              "flatWorld [(''gpt-5'', [''openai'']), (''local-model-a'', [''local''])]"
              "''gpt-5(xhigh)''"
              "tableHandler [(''gpt-5'', ''local-model-a'')] False None"
              "''local-model-a(xhigh)''"
              "\<lambda>c. Returned"]
  by (simp add: fixture_defs)

text \<open>
  C2.  If the provider lookup returns no provider for the base name of the mapped model
  (the candidate, with the request's suffix re-attached where that applies), the resolver
  returns nothing and the request is not routed as \<open>MODEL_MAPPING\<close>.
\<close>

theorem unreachable_mapping_never_used:
  assumes "requestBody c = Inr body"
      and "extractModelFromRequest w body c = modelName"
      and "candidateFor fh modelName = Some mapped"
      and "GetProviderName w (ModelName (ParseSuffix mapped)) = []"
  shows "resolveFor w fh modelName = ('''', [])
       \<and> RouteTypeModelMapping \<notin> set (routeTypes (WrapHandler w fh handler c))"
proof -
  let ?n = "ModelName (ParseSuffix modelName)"
  let ?t = "thinkingSuffixOf (ParseSuffix modelName)"
  have r: "resolveFor w fh modelName = ('''', [])"
    using assms(3,4) by (rule resolve_unusable)
  have "RouteTypeModelMapping \<notin> set (routeTypes (WrapHandler w fh handler c))"
  proof (cases "modelName = ''''")
    case True
    with assms(1,2) have "WrapHandler w fh handler c = callHandler handler c"
      by (intro WrapHandler_unrouted) auto
    then show ?thesis by simp
  next
    case False
    let ?st = "decide w fh modelName ?n ?t body c"
    have st: "?st = \<lparr>bodyBytes = body, ctx = c, resolvedModel = ?n, usedMapping = False,
                     providers = GetProviderName w ?n\<rparr>"
      using r by (intro decide_unmapped) simp
    have w: "WrapHandler w fh handler c = dispatch w fh handler (urlPath c) modelName ?st"
      using assms(1,2) False by (rule WrapHandler_routed)
    show ?thesis
    proof (cases "GetProviderName w ?n = []")
      case True
      show ?thesis
      proof (cases "getProxy fh")
        case None
        with True st show ?thesis by (simp add: w dispatch_no_provider)
      next
        case (Some proxy)
        with True st show ?thesis by (simp add: w dispatch_amp_credits [where proxy = proxy])
      qed
    next
      case False
      with st show ?thesis by (simp add: w dispatch_local)
    qed
  qed
  with r show ?thesis by simp
qed

theorem unreachable_mapping_never_used_witness:
  "candidateFor (tableHandler [(''claude-x'', ''local-model-b'')] True None) ''claude-x(high)''
     = Some ''local-model-b(high)''
   \<and> resolveFor (flatWorld [(''claude-x'', [''anthropic''])])
         (tableHandler [(''claude-x'', ''local-model-b'')] True None) ''claude-x(high)'' = ('''', [])
   \<and> RouteTypeModelMapping \<notin> set (routeTypes
         (WrapHandler (flatWorld [(''claude-x'', [''anthropic''])])
            (tableHandler [(''claude-x'', ''local-model-b'')] True None)
            (\<lambda>c. Returned) (request [(''model'', JString ''claude-x(high)'')] '''')))"
  using unreachable_mapping_never_used
          [of "request [(''model'', JString ''claude-x(high)'')] ''''"
              "[(''model'', JString ''claude-x(high)'')]"
              "flatWorld [(''claude-x'', [''anthropic''])]"
              "''claude-x(high)''"
              "tableHandler [(''claude-x'', ''local-model-b'')] True None"
              "''local-model-b(high)''"
              "\<lambda>c. Returned"]
  by (simp add: fixture_defs)

text \<open>
  C3.  When the force-priority flag is true and the resolver returns nothing (by
  \<open>resolve_nothing_iff\<close>: no mapper, an empty or white-space target, or a target
  without providers), the local-provider lookup on the normalized base name still takes
  place: with a local provider the request is logged as \<open>LOCAL_PROVIDER\<close> and handed
  to the wrapped handler, its body untouched and the beta header filtered.
\<close>

theorem force_mode_falls_through_to_local:
  assumes "requestBody c = Inr body"
      and "extractModelFromRequest w body c = modelName" and "modelName \<noteq> ''''"
      and "forceModelMappings fh = Some True"
      and "resolveFor w fh modelName = ('''', [])"
      and "GetProviderName w (ModelName (ParseSuffix modelName)) = p # ps"
  shows "WrapHandler w fh handler c =
           LogAmpRouting RouteTypeLocalProvider modelName (ModelName (ParseSuffix modelName)) p (urlPath c)
           # callHandler handler (filterAntropicBetaHeader w c)"
proof -
  let ?n = "ModelName (ParseSuffix modelName)"
  let ?st = "decide w fh modelName ?n (thinkingSuffixOf (ParseSuffix modelName)) body c"
  have st: "?st = \<lparr>bodyBytes = body, ctx = c, resolvedModel = ?n, usedMapping = False,
                   providers = GetProviderName w ?n\<rparr>"
    using assms(5) by (intro decide_unmapped) simp
  have same: "(filterAntropicBetaHeader w c)\<lparr>requestBody := Inr body\<rparr> = filterAntropicBetaHeader w c"
    using assms(1) by (cases c) (simp add: filterAntropicBetaHeader_def Let_def)
  have "WrapHandler w fh handler c = dispatch w fh handler (urlPath c) modelName ?st"
    using assms(1-3) by (rule WrapHandler_routed)
  also have "\<dots> = LogAmpRouting RouteTypeLocalProvider modelName ?n p (urlPath c)
                   # callHandler handler (filterAntropicBetaHeader w c)"
    using assms(6) by (simp add: st dispatch_local same)
  finally show ?thesis .
qed

theorem force_mode_falls_through_to_local_witness:
  "resolveFor (flatWorld [(''gpt-5'', [''openai''])])
     (tableHandler [(''gpt-5'', ''local-model-a'')] True None) ''gpt-5'' = ('''', [])
   \<and> routeTypes (WrapHandler (flatWorld [(''gpt-5'', [''openai''])])
         (tableHandler [(''gpt-5'', ''local-model-a'')] True None)
         (\<lambda>c. Returned) (request [(''model'', JString ''gpt-5'')] '''')) = [RouteTypeLocalProvider]"
  using force_mode_falls_through_to_local
          [of "request [(''model'', JString ''gpt-5'')] ''''"
              "[(''model'', JString ''gpt-5'')]"
              "flatWorld [(''gpt-5'', [''openai''])]"
              "''gpt-5''"
              "tableHandler [(''gpt-5'', ''local-model-a'')] True None"
              "''openai''" "[]"
              "\<lambda>c. Returned"]
  by (simp add: fixture_defs)

text \<open>
  C4, as amended.  On every \<open>MODEL_MAPPING\<close> route the wrapped handler is called
  once, the context carries the resolved model under \<open>mapped_model\<close>, and the body it
  reads is \<open>rewriteModelInRequest\<close> of the original body and the resolved model: the
  output of \<open>sjson.SetBytes\<close> for the key \<open>model\<close> when the body has a \<open>model\<close> field
  and the setter succeeds, and the original body, unchanged, when the body has no
  \<open>model\<close> field (the model came from the URL path) or the setter fails.
\<close>

theorem mapping_route_hands_rewrite_result:
  assumes "RouteTypeModelMapping \<in> set (routeTypes (WrapHandler w fh handler c))"
  shows "\<exists>body mapped c'.
           requestBody c = Inr body \<and>
           mapped = fst (resolveFor w fh (extractModelFromRequest w body c)) \<and> mapped \<noteq> '''' \<and>
           handlerCalls (WrapHandler w fh handler c) = [c'] \<and>
           keys c' MappedModelContextKey = Some mapped \<and>
           requestBody c' = Inr (rewriteModelInRequest w body mapped) \<and>
           rewriteModelInRequest w body mapped =
             (if rExists (gjsonGetBytes w body ''model'')
              then (case sjsonSetBytes w body ''model'' mapped of Inl err \<Rightarrow> body | Inr result \<Rightarrow> result)
              else body)"
proof -
  from routed_of_mapping_route [OF assms]
  obtain body where b: "requestBody c = Inr body" and m: "extractModelFromRequest w body c \<noteq> ''''"
    by blast
  let ?m = "extractModelFromRequest w body c"
  have u: "usedMapping (decide w fh ?m (ModelName (ParseSuffix ?m)) (thinkingSuffixOf (ParseSuffix ?m)) body c)"
    using b refl m assms by (rule mapping_route_usedMapping)
  from decide_usedMapping [OF u] have ne: "fst (resolveFor w fh ?m) \<noteq> ''''" by auto
  let ?c3 = "(filterAntropicBetaHeader w
               (c\<lparr>requestBody := Inr (rewriteModelInRequest w body (fst (resolveFor w fh ?m))),
                  keys := (keys c)(MappedModelContextKey \<mapsto> fst (resolveFor w fh ?m)),
                  writer := ResponseRewriter (writer c) ?m\<rparr>))
             \<lparr>requestBody := Inr (rewriteModelInRequest w body (fst (resolveFor w fh ?m)))\<rparr>"
  have calls: "handlerCalls (WrapHandler w fh handler c) = [?c3]"
    by (simp add: WrapHandler_trace(1) [OF b refl m u] Let_def split: handler_result.splits)
  have "keys ?c3 MappedModelContextKey = Some (fst (resolveFor w fh ?m))" by simp
  moreover have "requestBody ?c3 = Inr (rewriteModelInRequest w body (fst (resolveFor w fh ?m)))" by simp
  moreover have "rewriteModelInRequest w body (fst (resolveFor w fh ?m)) =
             (if rExists (gjsonGetBytes w body ''model'')
              then (case sjsonSetBytes w body ''model'' (fst (resolveFor w fh ?m)) of
                      Inl err \<Rightarrow> body | Inr result \<Rightarrow> result)
              else body)"
    by (simp add: rewriteModelInRequest_def)
  ultimately show ?thesis using b ne calls by blast
qed

theorem mapping_route_hands_rewrite_result_witness:
  "map requestBody (handlerCalls
     (WrapHandler (flatWorld [(''local-model-a'', [''local''])])
        (tableHandler [(''gpt-5'', ''local-model-a'')] False None) (\<lambda>c. Returned)
        (request [(''model'', JString ''gpt-5(xhigh)''), (''stream'', JTrue)] '''')))
   = [Inr [(''model'', JString ''local-model-a(xhigh)''), (''stream'', JTrue)]]"
  using mapping_route_hands_rewrite_result
          [of "flatWorld [(''local-model-a'', [''local''])]"
              "tableHandler [(''gpt-5'', ''local-model-a'')] False None" "\<lambda>c. Returned"
              "request [(''model'', JString ''gpt-5(xhigh)''), (''stream'', JTrue)] ''''"]
  by (simp add: fixture_defs run_defs)

text \<open>
  The claim as stated (the handed body always has its \<open>model\<close> field set to the resolved
  model) fails for a request whose model comes from the \<open>action\<close> path parameter: the
  route is \<open>MODEL_MAPPING\<close> and the body, which has no \<open>model\<close> field, is handed on as
  it came.
\<close>

theorem mapping_route_body_counterexample:
  "routeTypes (WrapHandler (flatWorld [(''gemini-local'', [''gemini-cli''])])
        (tableHandler [(''gemini-pro'', ''gemini-local'')] False None) (\<lambda>c. Returned)
        (request [(''contents'', JRaw ''[]'')] ''gemini-pro:generateContent''))
     = [RouteTypeModelMapping]
   \<and> map requestBody (handlerCalls
        (WrapHandler (flatWorld [(''gemini-local'', [''gemini-cli''])])
           (tableHandler [(''gemini-pro'', ''gemini-local'')] False None) (\<lambda>c. Returned)
           (request [(''contents'', JRaw ''[]'')] ''gemini-pro:generateContent'')))
     = [Inr [(''contents'', JRaw ''[]'')]]
   \<and> \<not> rExists (flatGet [(''contents'', JRaw ''[]'')] ''model'')"
  by (simp add: fixture_defs run_defs)

text \<open>
  C5, as amended.  A routed request logs exactly one routing decision, for the requested
  model.  On \<open>LOCAL_PROVIDER\<close> the resolved model is the normalized base name, which
  equals the requested model exactly when the request carries no suffix.  On
  \<open>MODEL_MAPPING\<close> it is the model the resolver returned, which is not empty and, when
  the force-priority flag is not true, differs from the requested model.  On
  \<open>AMP_CREDITS\<close> and \<open>NO_PROVIDER\<close> it is empty.
\<close>

theorem resolved_model_by_outcome:
  assumes "requestBody c = Inr body"
      and "extractModelFromRequest w body c = modelName" and "modelName \<noteq> ''''"
  shows "\<exists>r resolved provider.
           routingCalls (WrapHandler w fh handler c) = [(r, modelName, resolved, provider, urlPath c)] \<and>
           (r = RouteTypeLocalProvider \<longrightarrow>
              resolved = ModelName (ParseSuffix modelName) \<and>
              (resolved = modelName \<longleftrightarrow> \<not> HasSuffix (ParseSuffix modelName))) \<and>
           (r = RouteTypeModelMapping \<longrightarrow>
              resolved = fst (resolveFor w fh modelName) \<and> resolved \<noteq> '''' \<and>
              (forceModelMappings fh \<noteq> Some True \<longrightarrow> resolved \<noteq> modelName)) \<and>
           (r = RouteTypeAmpCredits \<or> r = RouteTypeNoProvider \<longrightarrow> resolved = '''')"
proof -
  let ?n = "ModelName (ParseSuffix modelName)"
  let ?st = "decide w fh modelName ?n (thinkingSuffixOf (ParseSuffix modelName)) body c"
  show ?thesis
  proof (cases "usedMapping ?st")
    case True
    from decide_usedMapping [OF True]
    obtain m ps where r: "resolveFor w fh modelName = (m, ps)" and m: "m \<noteq> ''''" and ps: "ps \<noteq> []"
      and d: "forceModelMappings fh \<noteq> Some True \<longrightarrow> GetProviderName w ?n = []"
      by blast
    from resolve_cases [OF r] m have psv: "ps = GetProviderName w (ModelName (ParseSuffix m))" by blast
    have "forceModelMappings fh \<noteq> Some True \<longrightarrow> m \<noteq> modelName"
      using d ps psv by auto
    moreover have "routingCalls (WrapHandler w fh handler c) =
                     [(RouteTypeModelMapping, modelName, m, hd ps, urlPath c)]"
      by (simp add: WrapHandler_trace(1) [OF assms True] r Let_def split: handler_result.splits)
    ultimately show ?thesis using r m by simp
  next
    case False
    show ?thesis
    proof (cases "GetProviderName w ?n = []")
      case ne: False
      have "routingCalls (WrapHandler w fh handler c) =
              [(RouteTypeLocalProvider, modelName, ?n, hd (GetProviderName w ?n), urlPath c)]"
        by (simp add: WrapHandler_trace(2) [OF assms False ne])
      then show ?thesis by (simp add: ParseSuffix_ModelName_same)
    next
      case True
      show ?thesis
      proof (cases "getProxy fh")
        case None
        have "routingCalls (WrapHandler w fh handler c) =
                [(RouteTypeNoProvider, modelName, '''', '''', urlPath c)]"
          by (simp add: WrapHandler_trace(3) [OF assms False True None])
        then show ?thesis by simp
      next
        case (Some proxy)
        have "routingCalls (WrapHandler w fh handler c) =
                [(RouteTypeAmpCredits, modelName, '''', '''', urlPath c)]"
          by (simp add: WrapHandler_trace(4) [OF assms False True Some])
        then show ?thesis by simp
      qed
    qed
  qed
qed

theorem resolved_model_by_outcome_witness:
  "routingCalls (WrapHandler (flatWorld [(''local-model-a'', [''local''])])
     (tableHandler [(''gpt-5'', ''local-model-a'')] False None) (\<lambda>c. Returned)
     (request [(''model'', JString ''gpt-5(xhigh)'')] ''''))
   = [(RouteTypeModelMapping, ''gpt-5(xhigh)'', ''local-model-a(xhigh)'', ''local'', ''/api/provider/x'')]"
  using resolved_model_by_outcome
          [of "request [(''model'', JString ''gpt-5(xhigh)'')] ''''"
              "[(''model'', JString ''gpt-5(xhigh)'')]"
              "flatWorld [(''local-model-a'', [''local''])]"
              "''gpt-5(xhigh)''"
              "tableHandler [(''gpt-5'', ''local-model-a'')] False None" "\<lambda>c. Returned"]
  by (simp add: fixture_defs run_defs)

text \<open>
  The claim as stated fails in both directions: a suffixed request served by a local
  provider has a resolved model (\<open>gpt-5\<close>) that differs from the requested one
  (\<open>gpt-5(high)\<close>) and is logged as \<open>resolved_model\<close>; and under force-priority a
  mapping of a model to itself gives \<open>MODEL_MAPPING\<close> with the resolved model equal to
  the requested one.
\<close>

theorem resolved_model_counterexample:
  "routingCalls (WrapHandler (flatWorld [(''gpt-5'', [''openai''])])
     (tableHandler [] False None) (\<lambda>c. Returned)
     (request [(''model'', JString ''gpt-5(high)'')] ''''))
   = [(RouteTypeLocalProvider, ''gpt-5(high)'', ''gpt-5'', ''openai'', ''/api/provider/x'')]
   \<and> logFields (logAmpRouting ''2026-01-01T00:00:00Z'' RouteTypeLocalProvider ''gpt-5(high)'' ''gpt-5''
                  ''openai'' ''/api/provider/x'') ''resolved_model'' = Some ''gpt-5''
   \<and> routingCalls (WrapHandler (flatWorld [(''gpt-5'', [''openai''])])
     (tableHandler [(''gpt-5'', ''gpt-5'')] True None) (\<lambda>c. Returned)
     (request [(''model'', JString ''gpt-5'')] ''''))
   = [(RouteTypeModelMapping, ''gpt-5'', ''gpt-5'', ''openai'', ''/api/provider/x'')]
   \<and> logFields (logAmpRouting ''2026-01-01T00:00:00Z'' RouteTypeModelMapping ''gpt-5'' ''gpt-5''
                  ''openai'' ''/api/provider/x'') ''resolved_model'' = None"
  by (simp add: fixture_defs run_defs logAmpRouting_def)

text \<open>
  C6, as amended.  On every \<open>MODEL_MAPPING\<close> route the trace is: the routing log, the
  call of the wrapped handler with the response rewriter installed as writer, and then
  \<open>rewriter.Flush()\<close> exactly once if that call returns (normally or through an early
  return of the handler); if the call panics, the panic leaves \<open>WrapHandler\<close> and
  \<open>Flush\<close> is not called.
\<close>

theorem flush_once_after_returning_handler:
  assumes "RouteTypeModelMapping \<in> set (routeTypes (WrapHandler w fh handler c))"
  shows "\<exists>requested resolved provider c'.
           writer c' = ResponseRewriter (writer c) requested \<and>
           WrapHandler w fh handler c =
             LogAmpRouting RouteTypeModelMapping requested resolved provider (urlPath c) #
             HandlerCall c' #
             (case handler c' of Returned \<Rightarrow> [RewriterFlush] | Panicked \<Rightarrow> [GoPanic]) \<and>
           flushes (WrapHandler w fh handler c) =
             (case handler c' of Returned \<Rightarrow> 1 | Panicked \<Rightarrow> 0)"
proof -
  from routed_of_mapping_route [OF assms]
  obtain body where b: "requestBody c = Inr body" and m: "extractModelFromRequest w body c \<noteq> ''''"
    by blast
  let ?m = "extractModelFromRequest w body c"
  have u: "usedMapping (decide w fh ?m (ModelName (ParseSuffix ?m)) (thinkingSuffixOf (ParseSuffix ?m)) body c)"
    using b refl m assms by (rule mapping_route_usedMapping)
  let ?c3 = "(filterAntropicBetaHeader w
               (c\<lparr>requestBody := Inr (rewriteModelInRequest w body (fst (resolveFor w fh ?m))),
                  keys := (keys c)(MappedModelContextKey \<mapsto> fst (resolveFor w fh ?m)),
                  writer := ResponseRewriter (writer c) ?m\<rparr>))
             \<lparr>requestBody := Inr (rewriteModelInRequest w body (fst (resolveFor w fh ?m)))\<rparr>"
  have tr: "WrapHandler w fh handler c =
              LogAmpRouting RouteTypeModelMapping ?m (fst (resolveFor w fh ?m))
                (hd (snd (resolveFor w fh ?m))) (urlPath c) #
              HandlerCall ?c3 #
              (case handler ?c3 of Returned \<Rightarrow> [RewriterFlush] | Panicked \<Rightarrow> [GoPanic])"
    by (simp add: WrapHandler_trace(1) [OF b refl m u] Let_def split: handler_result.splits)
  have fl: "flushes (WrapHandler w fh handler c) = (case handler ?c3 of Returned \<Rightarrow> 1 | Panicked \<Rightarrow> 0)"
    by (simp add: tr split: handler_result.splits)
  have "writer ?c3 = ResponseRewriter (writer c) ?m" by simp
  with tr fl show ?thesis by blast
qed

theorem flush_once_after_returning_handler_witness:
  "WrapHandler (flatWorld [(''local-model-a'', [''local''])])
     (tableHandler [(''gpt-5'', ''local-model-a'')] False None) (\<lambda>c. Returned)
     (request [(''model'', JString ''gpt-5(xhigh)'')] '''')
   = [LogAmpRouting RouteTypeModelMapping ''gpt-5(xhigh)'' ''local-model-a(xhigh)'' ''local''
        ''/api/provider/x'',
      HandlerCall ((request [(''model'', JString ''local-model-a(xhigh)'')] '''')
        \<lparr>keys := [''mapped_model'' \<mapsto> ''local-model-a(xhigh)''],
         writer := ResponseRewriter ClientWriter ''gpt-5(xhigh)''\<rparr>),
      RewriterFlush]
   \<and> flushes (WrapHandler (flatWorld [(''local-model-a'', [''local''])])
        (tableHandler [(''gpt-5'', ''local-model-a'')] False None) (\<lambda>c. Returned)
        (request [(''model'', JString ''gpt-5(xhigh)'')] '''')) = 1"
  using flush_once_after_returning_handler
          [of "flatWorld [(''local-model-a'', [''local''])]"
              "tableHandler [(''gpt-5'', ''local-model-a'')] False None" "\<lambda>c. Returned"
              "request [(''model'', JString ''gpt-5(xhigh)'')] ''''"]
  by (simp add: fixture_defs run_defs)

text \<open>
  The claim as stated (one flush on every exit path, a panic included) fails when the
  wrapped handler panics: the route is \<open>MODEL_MAPPING\<close> and the rewriter is never
  flushed.
\<close>

theorem flush_on_panic_counterexample:
  "routeTypes (WrapHandler (flatWorld [(''local-model-a'', [''local''])])
        (tableHandler [(''gpt-5'', ''local-model-a'')] False None) (\<lambda>c. Panicked)
        (request [(''model'', JString ''gpt-5(xhigh)'')] ''''))
     = [RouteTypeModelMapping]
   \<and> flushes (WrapHandler (flatWorld [(''local-model-a'', [''local''])])
        (tableHandler [(''gpt-5'', ''local-model-a'')] False None) (\<lambda>c. Panicked)
        (request [(''model'', JString ''gpt-5(xhigh)'')] '''')) = 0"
  by (simp add: fixture_defs run_defs)

text \<open>
  C7, as amended.  For a requested model \<open>base(s)\<close> whose \<open>s\<close> contains no \<open>(\<close>, let
  the target be the mapper's value for the requested name, or for \<open>base\<close> when that is
  empty, with surrounding white space trimmed.  If the target is not empty, the
  resolver's candidate is \<open>target(s)\<close> when the target has no suffix of its own, and the
  target itself when it has one.
\<close>

theorem suffix_reattached_to_trimmed_target:
  assumes "modelMapper fh = Some MapModel"
      and "modelName = base @ ''('' @ s @ '')''" and "CHR ''('' \<notin> set s"
      and "target = TrimSpace (if MapModel modelName = '''' then MapModel base else MapModel modelName)"
      and "target \<noteq> ''''"
  shows "candidateFor fh modelName =
           Some (if HasSuffix (ParseSuffix target) then target else target @ ''('' @ s @ '')'')"
proof -
  have "ParseSuffix modelName = \<lparr>ModelName = base, HasSuffix = True, RawSuffix = s\<rparr>"
    unfolding assms(2) using assms(3) by (rule ParseSuffix_suffixed)
  with assms(1,4,5) show ?thesis
    by (simp add: mappedCandidate_def thinkingSuffixOf_def Let_def)
qed

theorem suffix_reattached_to_trimmed_target_witness:
  "candidateFor (tableHandler [(''gpt-5'', '' local-model-a '')] False None) ''gpt-5(xhigh)''
     = Some ''local-model-a(xhigh)''
   \<and> candidateFor (tableHandler [(''gpt-5'', ''local-model-b(low)'')] False None) ''gpt-5(xhigh)''
     = Some ''local-model-b(low)''"
  using suffix_reattached_to_trimmed_target
          [of "tableHandler [(''gpt-5'', '' local-model-a '')] False None"
              "mappingLookup [(''gpt-5'', '' local-model-a '')]"
              "''gpt-5(xhigh)''" "''gpt-5''" "''xhigh''" "''local-model-a''"]
        suffix_reattached_to_trimmed_target
          [of "tableHandler [(''gpt-5'', ''local-model-b(low)'')] False None"
              "mappingLookup [(''gpt-5'', ''local-model-b(low)'')]"
              "''gpt-5(xhigh)''" "''gpt-5''" "''xhigh''" "''local-model-b(low)''"]
  by (simp add: fixture_defs)

text \<open>
  The claim as stated fails on the mapper's untrimmed value (a target with surrounding
  white space is trimmed before the suffix is attached, and a suffixed target with leading
  white space is not used unchanged), and on a suffix that contains \<open>(\<close>: only what
  follows the last \<open>(\<close> is re-attached.
\<close>

theorem suffix_reattachment_counterexample:
  "candidateFor (tableHandler [(''gpt-5'', '' local-model-a '')] False None) ''gpt-5(xhigh)''
     = Some ''local-model-a(xhigh)''
   \<and> ''local-model-a(xhigh)'' \<noteq> '' local-model-a '' @ ''('' @ ''xhigh'' @ '')''
   \<and> HasSuffix (ParseSuffix '' local-model-b(low)'')
   \<and> candidateFor (tableHandler [(''gpt-5'', '' local-model-b(low)'')] False None) ''gpt-5(xhigh)''
     = Some ''local-model-b(low)''
   \<and> ''gpt-5(a(b)'' = ''gpt-5'' @ ''('' @ ''a(b'' @ '')''
   \<and> candidateFor (tableHandler [(''gpt-5(a(b)'', ''local-model-a'')] False None) ''gpt-5(a(b)''
     = Some ''local-model-a(b)''"
  by (simp add: fixture_defs)

text \<open>
  C8, as amended.  For every body whose \<open>model\<close> field exists and is string-typed, the
  extractor returns that string, whatever the \<open>action\<close> and \<open>path\<close> parameters hold.
\<close>

theorem json_string_model_beats_path_hints:
  assumes "rExists (gjsonGetBytes w body ''model'')"
      and "rType (gjsonGetBytes w body ''model'') = TString"
  shows "extractModelFromRequest w body c = rString (gjsonGetBytes w body ''model'')"
  using assms by (simp add: extractModelFromRequest_def Let_def)

theorem json_string_model_beats_path_hints_witness:
  "extractModelFromRequest (flatWorld []) [(''model'', JString ''gpt-5'')]
     (request [(''model'', JString ''gpt-5'')] ''gemini-pro:generateContent'') = ''gpt-5''"
  using json_string_model_beats_path_hints
          [of "flatWorld []" "[(''model'', JString ''gpt-5'')]"
              "request [(''model'', JString ''gpt-5'')] ''gemini-pro:generateContent''"]
  by (simp add: flatWorld_def flatGet_def)

text \<open>
  The claim as stated (any \<open>model\<close> field wins) fails for a \<open>model\<close> field that is not
  a string: with \<open>"model": 5\<close> and the action \<open>gemini-pro:generateContent\<close> the extractor
  returns the model of the path.
\<close>

theorem json_model_field_counterexample:
  "rExists (flatGet [(''model'', JNumber ''5'')] ''model'')
   \<and> rString (flatGet [(''model'', JNumber ''5'')] ''model'') = ''5''
   \<and> extractModelFromRequest (flatWorld []) [(''model'', JNumber ''5'')]
         (request [(''model'', JNumber ''5'')] ''gemini-pro:generateContent'') = ''gemini-pro''"
  by (simp add: fixture_defs)

text \<open>
  C9.  A request whose model has no local provider and no usable mapping, with no proxy
  configured (\<open>getProxy\<close> returns nil), is logged as \<open>NO_PROVIDER\<close> and then handed to
  the wrapped handler with the context, and so the body, as they came; nothing else
  happens.
\<close>

theorem no_provider_passes_through:
  assumes "requestBody c = Inr body"
      and "extractModelFromRequest w body c = modelName" and "modelName \<noteq> ''''"
      and "GetProviderName w (ModelName (ParseSuffix modelName)) = []"
      and "resolveFor w fh modelName = ('''', [])"
      and "getProxy fh = None"
  shows "WrapHandler w fh handler c =
           LogAmpRouting RouteTypeNoProvider modelName '''' '''' (urlPath c) # callHandler handler c"
proof -
  let ?n = "ModelName (ParseSuffix modelName)"
  let ?st = "decide w fh modelName ?n (thinkingSuffixOf (ParseSuffix modelName)) body c"
  have st: "?st = \<lparr>bodyBytes = body, ctx = c, resolvedModel = ?n, usedMapping = False,
                   providers = GetProviderName w ?n\<rparr>"
    using assms(5) by (intro decide_unmapped) simp
  have same: "c\<lparr>requestBody := Inr body\<rparr> = c" using assms(1) by (cases c) simp
  have "WrapHandler w fh handler c = dispatch w fh handler (urlPath c) modelName ?st"
    using assms(1-3) by (rule WrapHandler_routed)
  also have "\<dots> = LogAmpRouting RouteTypeNoProvider modelName '''' '''' (urlPath c) # callHandler handler c"
    using assms(4,6) by (simp add: st dispatch_no_provider same)
  finally show ?thesis .
qed

theorem no_provider_passes_through_witness:
  "WrapHandler (flatWorld []) (tableHandler [] False None) (\<lambda>c. Returned)
     (request [(''model'', JString ''claude-x'')] '''')
   = [LogAmpRouting RouteTypeNoProvider ''claude-x'' '''' '''' ''/api/provider/x'',
      HandlerCall (request [(''model'', JString ''claude-x'')] '''')]
   \<and> requestBody (request [(''model'', JString ''claude-x'')] '''')
       = Inr [(''model'', JString ''claude-x'')]"
  using no_provider_passes_through
          [of "request [(''model'', JString ''claude-x'')] ''''"
              "[(''model'', JString ''claude-x'')]"
              "flatWorld []"
              "''claude-x''"
              "tableHandler [] False None"
              "\<lambda>c. Returned"]
  by (simp add: fixture_defs callHandler_def)

text \<open>
  C10.  If the mapper maps the raw requested name to a non-empty string of white space,
  the resolver returns nothing whatever the mapper holds for the normalized base name;
  if it maps the raw name to the empty string, the resolver returns what it returns for a
  mapper that answers every name with the value held for the base name.
\<close>

theorem whitespace_raw_mapping_masks_base_mapping:
  assumes "modelMapper fh = Some MapModel"
  shows "(MapModel modelName \<noteq> '''' \<and> TrimSpace (MapModel modelName) = '''' \<longrightarrow>
            resolveMappedModel w fh modelName normalizedModel thinkingSuffix = ('''', []))
       \<and> (MapModel modelName = '''' \<longrightarrow>
            resolveMappedModel w fh modelName normalizedModel thinkingSuffix =
            resolveMappedModel w (fh\<lparr>modelMapper := Some (\<lambda>name. MapModel normalizedModel)\<rparr>)
              modelName normalizedModel thinkingSuffix)"
  using assms by (simp add: resolveMappedModel_def mappedCandidate_def Let_def)

theorem whitespace_raw_mapping_masks_base_mapping_witness:
  "resolveMappedModel (flatWorld [(''local-model-a'', [''local''])])
     (tableHandler [(''gpt-5(high)'', ''  ''), (''gpt-5'', ''local-model-a'')] False None)
     ''gpt-5(high)'' ''gpt-5'' ''(high)'' = ('''', [])
   \<and> resolveMappedModel (flatWorld [(''local-model-a'', [''local''])])
     (tableHandler [(''gpt-5(high)'', ''''), (''gpt-5'', ''local-model-a'')] False None)
     ''gpt-5(high)'' ''gpt-5'' ''(high)'' = (''local-model-a(high)'', [''local''])"
  using whitespace_raw_mapping_masks_base_mapping
          [of "tableHandler [(''gpt-5(high)'', ''  ''), (''gpt-5'', ''local-model-a'')] False None"
              "mappingLookup [(''gpt-5(high)'', ''  ''), (''gpt-5'', ''local-model-a'')]"
              "''gpt-5(high)''"
              "flatWorld [(''local-model-a'', [''local''])]"
              "''gpt-5''" "''(high)''"]
        whitespace_raw_mapping_masks_base_mapping
          [of "tableHandler [(''gpt-5(high)'', ''''), (''gpt-5'', ''local-model-a'')] False None"
              "mappingLookup [(''gpt-5(high)'', ''''), (''gpt-5'', ''local-model-a'')]"
              "''gpt-5(high)''"
              "flatWorld [(''local-model-a'', [''local''])]"
              "''gpt-5''" "''(high)''"]
  by (simp add: fixture_defs)

end
